theory Spec2Isabelle
  imports Main "HOL-Library.Sublist"
begin

section \<open>The generated header configargs.h\<close>

text \<open>
  The header holds three objects with static storage and \<^verbatim>\<open>const\<close> qualification:
  two character arrays initialised from string literals and an array of structures
  whose two members point to string literals. There is no function in the file.
\<close>

subsection \<open>C character arrays\<close>

definition NUL :: char where
  "NUL = CHR 0x00"

text \<open>
  A string literal denotes an array holding the characters of the literal followed by a
  terminating NUL; \<^verbatim>\<open>char a[] = "..."\<close> gives \<^verbatim>\<open>a\<close> exactly these elements.
\<close>

definition string_literal :: "string \<Rightarrow> char list" where
  "string_literal s = s @ [NUL]"

text \<open>
  Subscripting an array: defined inside the bounds only. Outside them the behaviour is
  undefined in C, which is the value \<open>None\<close> here.
\<close>

definition array_read :: "'a list \<Rightarrow> nat \<Rightarrow> 'a option" where
  "array_read a i = (if i < length a then Some (a ! i) else None)"

text \<open>
  Reading an array as a C string scans from its first element up to the first NUL. A scan
  that leaves the array without meeting a NUL is undefined behaviour, the value \<open>None\<close>.
\<close>

fun c_strlen :: "char list \<Rightarrow> nat option" where
  "c_strlen [] = None"
| "c_strlen (c # cs) = (if c = NUL then Some 0 else map_option Suc (c_strlen cs))"

fun c_str :: "char list \<Rightarrow> string option" where
  "c_str [] = None"
| "c_str (c # cs) = (if c = NUL then Some [] else map_option ((#) c) (c_str cs))"

subsection \<open>The three objects\<close>

text \<open>
  \<^verbatim>\<open>static const char configuration_arguments[] = "...";\<close>
  The last character of the literal is an apostrophe, appended below as \<open>CHR 0x27\<close>.
\<close>

definition configuration_arguments :: "char list" where
  "configuration_arguments = string_literal
     (''/home/buildozer/aports/main/gcc/src/gcc-14.2.0/configure --prefix=/usr --mandir=/usr/share/man --infodir=/usr/share/info --build=armv7-alpine-linux-musleabihf --host=armv7-alpine-linux-musleabihf --target=armv7-alpine-linux-musleabihf --enable-checking=release --disable-cet --disable-fixed-point --disable-libstdcxx-pch --disable-multilib --disable-nls --disable-werror --disable-symvers --enable-__cxa_atexit --enable-default-pie --enable-default-ssp --enable-languages=c,c++,objc,go,fortran,ada --enable-link-serialization=2 --enable-linker-build-id --with-arch=armv7-a --with-tune=generic-armv7-a --with-fpu=vfpv3-d16 --with-float=hard --with-abi=aapcs-linux --with-mode=thumb --disable-libquadmath --disable-libssp --disable-libsanitizer --enable-shared --enable-threads --enable-tls --disable-libitm --with-bugurl=https://gitlab.alpinelinux.org/alpine/aports/-/issues --with-system-zlib --with-linker-hash-style=gnu --with-pkgversion='Alpine 14.2.0'' @ [CHR 0x27])"

text \<open>\<^verbatim>\<open>static const char thread_model[] = "posix";\<close>\<close>

definition thread_model :: "char list" where
  "thread_model = string_literal ''posix''"

text \<open>
  \<^verbatim>\<open>static const struct { const char *name, *value; } configure_default_options[]\<close>:
  each member points to the array of a string literal.
\<close>

record configure_default_option =
  name :: "char list"
  "value" :: "char list"

definition configure_default_options :: "configure_default_option list" where
  "configure_default_options =
     [\<lparr>name = string_literal ''abi'', value = string_literal ''aapcs-linux''\<rparr>,
      \<lparr>name = string_literal ''cpu'', value = string_literal ''arm10e''\<rparr>,
      \<lparr>name = string_literal ''arch'', value = string_literal ''armv7-a''\<rparr>,
      \<lparr>name = string_literal ''tune'', value = string_literal ''generic-armv7-a''\<rparr>,
      \<lparr>name = string_literal ''float'', value = string_literal ''hard''\<rparr>,
      \<lparr>name = string_literal ''mode'', value = string_literal ''thumb''\<rparr>,
      \<lparr>name = string_literal ''fpu'', value = string_literal ''vfpv3-d16''\<rparr>,
      \<lparr>name = string_literal ''tls'', value = string_literal ''gnu''\<rparr>]"

subsection \<open>Reading the recorded values\<close>

text \<open>
  The header has no reader of its own. The functions below state what a reader finds:
  the words of the command line (separated by spaces, quotes not interpreted), the value
  a flag of the form \<^verbatim>\<open>--flag=value\<close> carries, and the value the table pairs with
  a name (the first entry of that name, as a scan from index 0 finds it).
\<close>

fun words_from :: "string \<Rightarrow> string \<Rightarrow> string list" where
  "words_from w [] = [rev w]"
| "words_from w (c # cs) =
     (if c = CHR '' '' then rev w # words_from [] cs else words_from (c # w) cs)"

definition words :: "string \<Rightarrow> string list" where
  "words s = filter (\<lambda>w. w \<noteq> []) (words_from [] s)"

definition flag_value :: "string \<Rightarrow> string list \<Rightarrow> string option" where
  "flag_value flag ws =
     (case find (prefix flag) ws of None \<Rightarrow> None | Some w \<Rightarrow> Some (drop (length flag) w))"

definition configure_flag :: "string \<Rightarrow> string option" where
  "configure_flag flag =
     Option.bind (c_str configuration_arguments) (\<lambda>s. flag_value flag (words s))"

definition option_value :: "string \<Rightarrow> configure_default_option list \<Rightarrow> string option" where
  "option_value n tbl =
     Option.bind (find (\<lambda>e. c_str (name e) = Some n) tbl) (\<lambda>e. c_str (value e))"

subsection \<open>Qualified objects and the operations of C on them\<close>

text \<open>
  Each of the three declarations carries the qualifier \<^verbatim>\<open>const\<close>. An object is its
  elements together with that qualifier. C has two operations on an element of an array
  object: reading it and assigning to it. Assigning to an element of a const-qualified
  object violates a constraint (the element is not a modifiable lvalue), and modifying it
  through any other lvalue is undefined behaviour: either way no defined execution
  performs the write, which is the fault \<open>Write_to_const\<close> here. An object without the
  qualifier is updated in place.
\<close>

datatype fault = Out_of_bounds | Write_to_const

record 'a c_object =
  is_const :: bool
  elements :: "'a list"

definition object_read :: "'a c_object \<Rightarrow> nat \<Rightarrow> fault + 'a" where
  "object_read obj i =
     (case array_read (elements obj) i of None \<Rightarrow> Inl Out_of_bounds | Some x \<Rightarrow> Inr x)"

definition object_write :: "'a c_object \<Rightarrow> nat \<Rightarrow> 'a \<Rightarrow> fault + 'a c_object" where
  "object_write obj i x =
     (if is_const obj then Inl Write_to_const
      else if i < length (elements obj) then Inr (obj\<lparr>elements := (elements obj)[i := x]\<rparr>)
      else Inl Out_of_bounds)"

text \<open>
  The static data of a program that includes the header: the three objects, each
  \<^verbatim>\<open>static const\<close>, with the elements their initialisers give them.
\<close>

record static_data =
  arguments_object :: "char c_object"
  thread_model_object :: "char c_object"
  options_object :: "configure_default_option c_object"

definition header_data :: static_data where
  "header_data =
     \<lparr>arguments_object = \<lparr>is_const = True, elements = configuration_arguments\<rparr>,
      thread_model_object = \<lparr>is_const = True, elements = thread_model\<rparr>,
      options_object = \<lparr>is_const = True, elements = configure_default_options\<rparr>\<rparr>"

text \<open>
  An operation of a program on the static data reads or writes one element of one of the
  three objects. A write to the table stores a whole entry, which covers an assignment to
  either member. A faulting operation ends the run.
\<close>

datatype operation =
    Read_arguments nat
  | Read_thread_model nat
  | Read_options nat
  | Write_arguments nat char
  | Write_thread_model nat char
  | Write_options nat configure_default_option

fun step :: "operation \<Rightarrow> static_data \<Rightarrow> fault + static_data" where
  "step (Read_arguments i) d =
     (case object_read (arguments_object d) i of Inl f \<Rightarrow> Inl f | Inr _ \<Rightarrow> Inr d)"
| "step (Read_thread_model i) d =
     (case object_read (thread_model_object d) i of Inl f \<Rightarrow> Inl f | Inr _ \<Rightarrow> Inr d)"
| "step (Read_options i) d =
     (case object_read (options_object d) i of Inl f \<Rightarrow> Inl f | Inr _ \<Rightarrow> Inr d)"
| "step (Write_arguments i c) d =
     (case object_write (arguments_object d) i c of
        Inl f \<Rightarrow> Inl f | Inr obj \<Rightarrow> Inr (d\<lparr>arguments_object := obj\<rparr>))"
| "step (Write_thread_model i c) d =
     (case object_write (thread_model_object d) i c of
        Inl f \<Rightarrow> Inl f | Inr obj \<Rightarrow> Inr (d\<lparr>thread_model_object := obj\<rparr>))"
| "step (Write_options i e) d =
     (case object_write (options_object d) i e of
        Inl f \<Rightarrow> Inl f | Inr obj \<Rightarrow> Inr (d\<lparr>options_object := obj\<rparr>))"

fun run :: "operation list \<Rightarrow> static_data \<Rightarrow> fault + static_data" where
  "run [] d = Inr d"
| "run (x # xs) d = (case step x d of Inl f \<Rightarrow> Inl f | Inr d' \<Rightarrow> run xs d')"

definition all_const :: "static_data \<Rightarrow> bool" where
  "all_const d \<longleftrightarrow>
     is_const (arguments_object d) \<and> is_const (thread_model_object d) \<and>
     is_const (options_object d)"


section \<open>Properties\<close>

subsection \<open>String literals as C strings\<close>

lemma c_str_string_literal:
  "NUL \<notin> set s \<Longrightarrow> c_str (string_literal s) = Some s"
  by (induction s) (auto simp add: string_literal_def)

lemma c_strlen_string_literal:
  "NUL \<notin> set s \<Longrightarrow> c_strlen (string_literal s) = Some (length s)"
  by (induction s) (auto simp add: string_literal_def)

lemma array_read_last_string_literal:
  "n = length s \<Longrightarrow> array_read (string_literal s) n = Some NUL"
  by (simp add: array_read_def string_literal_def)

lemma array_read_in_bounds:
  "i < length a \<Longrightarrow> \<exists>x. array_read a i = Some x"
  by (simp add: array_read_def)

lemma words_from_space: "words_from w (CHR '' '' # cs) = rev w # words_from [] cs"
  by simp

lemma words_from_other:
  "c \<noteq> CHR '' '' \<Longrightarrow> words_from w (c # cs) = words_from (c # w) cs"
  by simp

subsection \<open>Sizes and contents of the two character arrays\<close>

lemma length_configuration_arguments: "length configuration_arguments = 956"
  by (simp add: configuration_arguments_def string_literal_def)

lemma length_thread_model: "length thread_model = 6"
  by (simp add: thread_model_def string_literal_def)

lemma c_str_thread_model: "c_str thread_model = Some ''posix''"
  by (simp add: thread_model_def c_str_string_literal NUL_def)

text \<open>The words of the recorded command line, and so the value of each of its flags.\<close>

lemma configure_flag_words:
  "configure_flag flag = flag_value flag
    [''/home/buildozer/aports/main/gcc/src/gcc-14.2.0/configure'',
     ''--prefix=/usr'',
     ''--mandir=/usr/share/man'',
     ''--infodir=/usr/share/info'',
     ''--build=armv7-alpine-linux-musleabihf'',
     ''--host=armv7-alpine-linux-musleabihf'',
     ''--target=armv7-alpine-linux-musleabihf'',
     ''--enable-checking=release'',
     ''--disable-cet'',
     ''--disable-fixed-point'',
     ''--disable-libstdcxx-pch'',
     ''--disable-multilib'',
     ''--disable-nls'',
     ''--disable-werror'',
     ''--disable-symvers'',
     ''--enable-__cxa_atexit'',
     ''--enable-default-pie'',
     ''--enable-default-ssp'',
     ''--enable-languages=c,c++,objc,go,fortran,ada'',
     ''--enable-link-serialization=2'',
     ''--enable-linker-build-id'',
     ''--with-arch=armv7-a'',
     ''--with-tune=generic-armv7-a'',
     ''--with-fpu=vfpv3-d16'',
     ''--with-float=hard'',
     ''--with-abi=aapcs-linux'',
     ''--with-mode=thumb'',
     ''--disable-libquadmath'',
     ''--disable-libssp'',
     ''--disable-libsanitizer'',
     ''--enable-shared'',
     ''--enable-threads'',
     ''--enable-tls'',
     ''--disable-libitm'',
     ''--with-bugurl=https://gitlab.alpinelinux.org/alpine/aports/-/issues'',
     ''--with-system-zlib'',
     ''--with-linker-hash-style=gnu'',
     ''--with-pkgversion='Alpine'',
     ''14.2.0'' @ [CHR 0x27]]"
  by (simp add: configure_flag_def configuration_arguments_def c_str_string_literal NUL_def
        words_def words_from_space words_from_other del: words_from.simps(2))

lemma configure_flag_triples:
  "configure_flag ''--build='' = Some ''armv7-alpine-linux-musleabihf''"
  "configure_flag ''--host='' = Some ''armv7-alpine-linux-musleabihf''"
  "configure_flag ''--target='' = Some ''armv7-alpine-linux-musleabihf''"
  by (simp_all add: configure_flag_words flag_value_def)

lemma configure_flag_with:
  "configure_flag ''--with-abi='' = Some ''aapcs-linux''"
  "configure_flag ''--with-arch='' = Some ''armv7-a''"
  "configure_flag ''--with-tune='' = Some ''generic-armv7-a''"
  "configure_flag ''--with-float='' = Some ''hard''"
  "configure_flag ''--with-mode='' = Some ''thumb''"
  "configure_flag ''--with-fpu='' = Some ''vfpv3-d16''"
  "configure_flag ''--with-cpu='' = None"
  by (simp_all add: configure_flag_words flag_value_def)

subsection \<open>The table of default options\<close>

lemma length_configure_default_options: "length configure_default_options = 8"
  by (simp add: configure_default_options_def)

lemma option_value_defaults:
  "option_value ''abi'' configure_default_options = Some ''aapcs-linux''"
  "option_value ''cpu'' configure_default_options = Some ''arm10e''"
  "option_value ''arch'' configure_default_options = Some ''armv7-a''"
  "option_value ''tune'' configure_default_options = Some ''generic-armv7-a''"
  "option_value ''float'' configure_default_options = Some ''hard''"
  "option_value ''mode'' configure_default_options = Some ''thumb''"
  "option_value ''fpu'' configure_default_options = Some ''vfpv3-d16''"
  "option_value ''tls'' configure_default_options = Some ''gnu''"
  by (simp_all add: option_value_def configure_default_options_def c_str_string_literal NUL_def)

lemma entries_readable:
  "e \<in> set configure_default_options \<Longrightarrow>
     \<exists>n v. c_str (name e) = Some n \<and> c_str (value e) = Some v"
  by (auto simp add: configure_default_options_def c_str_string_literal NUL_def)

subsection \<open>Operations on const-qualified objects\<close>

lemma object_write_const: "is_const obj \<Longrightarrow> object_write obj i x = Inl Write_to_const"
  by (simp add: object_write_def)

text \<open>Without the qualifier the same write goes through and changes the element.\<close>

lemma object_write_mutable:
  "i < length xs \<Longrightarrow>
     object_write \<lparr>is_const = False, elements = xs\<rparr> i x =
       Inr \<lparr>is_const = False, elements = xs[i := x]\<rparr>"
  by (simp add: object_write_def)

lemma step_all_const:
  assumes "all_const d" and "step x d = Inr d'"
  shows "d' = d"
  using assms
  by (cases x) (auto simp add: all_const_def object_write_def split: sum.splits)

lemma run_all_const:
  "all_const d \<Longrightarrow> run xs d = Inr d' \<Longrightarrow> d' = d"
proof (induction xs)
  case Nil
  then show ?case by simp
next
  case (Cons x xs)
  from Cons.prems(2) obtain d1 where s: "step x d = Inr d1" and r: "run xs d1 = Inr d'"
    by (auto split: sum.splits)
  from step_all_const [OF Cons.prems(1) s] have "d1 = d" .
  with r Cons.IH Cons.prems(1) show ?case by simp
qed

lemma all_const_header_data: "all_const header_data"
  by (simp add: all_const_def header_data_def)

lemma write_options_faults:
  "step (Write_options i e) header_data = Inl Write_to_const"
  by (simp add: header_data_def object_write_def)

section \<open>The claims\<close>

text \<open>
  C1: the table \<open>configure_default_options\<close> has exactly eight entries, and read as
  pairs of C strings they are, in order, abi/aapcs-linux, cpu/arm10e, arch/armv7-a,
  tune/generic-armv7-a, float/hard, mode/thumb, fpu/vfpv3-d16, tls/gnu.
\<close>

theorem configure_default_options_entries:
  "length configure_default_options = 8 \<and>
   map (\<lambda>e. (c_str (name e), c_str (value e))) configure_default_options =
     [(Some ''abi'', Some ''aapcs-linux''),
      (Some ''cpu'', Some ''arm10e''),
      (Some ''arch'', Some ''armv7-a''),
      (Some ''tune'', Some ''generic-armv7-a''),
      (Some ''float'', Some ''hard''),
      (Some ''mode'', Some ''thumb''),
      (Some ''fpu'', Some ''vfpv3-d16''),
      (Some ''tls'', Some ''gnu'')]"
  by (simp add: configure_default_options_def c_str_string_literal NUL_def)

text \<open>
  C2: read as a C string, \<open>configuration_arguments\<close> is the recorded configure command
  line, character for character; the target triple armv7-alpine-linux-musleabihf and the
  flag --with-fpu=vfpv3-d16 occur in it.
\<close>

theorem configuration_arguments_recorded:
  "c_str configuration_arguments = Some
     (''/home/buildozer/aports/main/gcc/src/gcc-14.2.0/configure --prefix=/usr --mandir=/usr/share/man --infodir=/usr/share/info --build=armv7-alpine-linux-musleabihf --host=armv7-alpine-linux-musleabihf --target=armv7-alpine-linux-musleabihf --enable-checking=release --disable-cet --disable-fixed-point --disable-libstdcxx-pch --disable-multilib --disable-nls --disable-werror --disable-symvers --enable-__cxa_atexit --enable-default-pie --enable-default-ssp --enable-languages=c,c++,objc,go,fortran,ada --enable-link-serialization=2 --enable-linker-build-id --with-arch=armv7-a --with-tune=generic-armv7-a --with-fpu=vfpv3-d16 --with-float=hard --with-abi=aapcs-linux --with-mode=thumb --disable-libquadmath --disable-libssp --disable-libsanitizer --enable-shared --enable-threads --enable-tls --disable-libitm --with-bugurl=https://gitlab.alpinelinux.org/alpine/aports/-/issues --with-system-zlib --with-linker-hash-style=gnu --with-pkgversion='Alpine 14.2.0'' @ [CHR 0x27]) \<and>
   map_option (sublist ''armv7-alpine-linux-musleabihf'') (c_str configuration_arguments)
     = Some True \<and>
   map_option (sublist ''--with-fpu=vfpv3-d16'') (c_str configuration_arguments)
     = Some True"
  by (simp add: configuration_arguments_def c_str_string_literal NUL_def sublist_Cons_right)

text \<open>
  C4, as claimed: the build, host and target triples recorded in
  \<open>configuration_arguments\<close> are not all the same triple. They are all the same.
\<close>

theorem cross_build_counterexample:
  "\<not> (\<not> (configure_flag ''--build='' = configure_flag ''--host='' \<and>
           configure_flag ''--host='' = configure_flag ''--target=''))"
  by (simp add: configure_flag_triples)

text \<open>
  C4, amended: the header records a native build for an ARMv7 musl target. The
  \<^verbatim>\<open>--build\<close>, \<^verbatim>\<open>--host\<close> and \<^verbatim>\<open>--target\<close> flags recorded in
  \<open>configuration_arguments\<close> all carry the triple armv7-alpine-linux-musleabihf, which
  starts with armv7 and names musl.
\<close>

theorem native_build_armv7_musl:
  "configure_flag ''--build='' = Some ''armv7-alpine-linux-musleabihf'' \<and>
   configure_flag ''--host='' = Some ''armv7-alpine-linux-musleabihf'' \<and>
   configure_flag ''--target='' = Some ''armv7-alpine-linux-musleabihf'' \<and>
   map_option (prefix ''armv7'') (configure_flag ''--target='') = Some True \<and>
   map_option (sublist ''musl'') (configure_flag ''--target='') = Some True"
  by (simp add: configure_flag_triples sublist_Cons_right)

text \<open>
  C5: both character arrays are NUL-terminated. The last element of each (index 955 of
  the 956 of \<open>configuration_arguments\<close>, index 5 of the 6 of \<open>thread_model\<close>) is NUL,
  and the scan for the end of the string stops there, inside the array.
\<close>

theorem strings_null_terminated:
  "length configuration_arguments = 956 \<and>
   array_read configuration_arguments 955 = Some NUL \<and>
   c_strlen configuration_arguments = Some 955 \<and>
   length thread_model = 6 \<and>
   array_read thread_model 5 = Some NUL \<and>
   c_strlen thread_model = Some 5"
proof -
  have "array_read configuration_arguments 955 = Some NUL"
    unfolding configuration_arguments_def
    by (rule array_read_last_string_literal) simp
  moreover have "c_strlen configuration_arguments = Some 955"
    by (simp add: configuration_arguments_def c_strlen_string_literal NUL_def)
  moreover have "array_read thread_model 5 = Some NUL"
    unfolding thread_model_def
    by (rule array_read_last_string_literal) simp
  moreover have "c_strlen thread_model = Some 5"
    by (simp add: thread_model_def c_strlen_string_literal NUL_def)
  ultimately show ?thesis
    by (simp add: length_configuration_arguments length_thread_model)
qed

text \<open>
  C6: the keys of \<open>configure_default_options\<close> are the fixed identifiers abi, cpu, arch,
  tune, float, mode, fpu and tls, and the table has the fixed length 8. No operation changes
  either: after any run of reads and writes on the static data that does not fault, the
  table is the initial table, still const-qualified, with these keys and this length.
\<close>

theorem configure_default_options_keys_invariant:
  "set (map (\<lambda>e. c_str (name e)) configure_default_options) =
     {Some ''abi'', Some ''cpu'', Some ''arch'', Some ''tune'',
      Some ''float'', Some ''mode'', Some ''fpu'', Some ''tls''} \<and>
   length configure_default_options = 8 \<and>
   (run ops header_data = Inr d \<longrightarrow>
      elements (options_object d) = configure_default_options \<and>
      is_const (options_object d) \<and>
      set (map (\<lambda>e. c_str (name e)) (elements (options_object d))) =
        {Some ''abi'', Some ''cpu'', Some ''arch'', Some ''tune'',
         Some ''float'', Some ''mode'', Some ''fpu'', Some ''tls''} \<and>
      length (elements (options_object d)) = 8)"
proof -
  have keys: "set (map (\<lambda>e. c_str (name e)) configure_default_options) =
     {Some ''abi'', Some ''cpu'', Some ''arch'', Some ''tune'',
      Some ''float'', Some ''mode'', Some ''fpu'', Some ''tls''}"
    by (simp add: configure_default_options_def c_str_string_literal NUL_def)
  have unchanged: "d = header_data" if "run ops header_data = Inr d"
    using run_all_const [OF all_const_header_data that] .
  have tbl: "elements (options_object header_data) = configure_default_options"
    and const: "is_const (options_object header_data)"
    by (simp_all add: header_data_def)
  show ?thesis
    using keys unchanged tbl const by (auto simp add: length_configure_default_options)
qed

theorem configure_default_options_keys_invariant_witness:
  "run [Read_options 7, Read_thread_model 5, Read_arguments 0] header_data = Inr header_data \<and>
   elements (options_object header_data) = configure_default_options \<and>
   length (elements (options_object header_data)) = 8"
proof -
  have h: "run [Read_options 7, Read_thread_model 5, Read_arguments 0] header_data
             = Inr header_data"
    by (simp add: header_data_def object_read_def array_read_def
          length_configure_default_options length_thread_model length_configuration_arguments)
  from configure_default_options_keys_invariant
         [of "[Read_options 7, Read_thread_model 5, Read_arguments 0]" header_data] h
  show ?thesis by simp
qed

text \<open>
  C7: a read inside the bounds never fails. Every index below 956 of
  \<open>configuration_arguments\<close>, below 6 of \<open>thread_model\<close> and below 8 of
  \<open>configure_default_options\<close> reads an element, and both members of the entry read
  from the table are readable as C strings.
\<close>

theorem static_reads_succeed:
  "(i < 956 \<longrightarrow> (\<exists>c. array_read configuration_arguments i = Some c)) \<and>
   (j < 6 \<longrightarrow> (\<exists>c. array_read thread_model j = Some c)) \<and>
   (k < 8 \<longrightarrow> (\<exists>e n v. array_read configure_default_options k = Some e \<and>
                        c_str (name e) = Some n \<and> c_str (value e) = Some v))"
proof (intro conjI impI)
  assume "i < 956"
  then show "\<exists>c. array_read configuration_arguments i = Some c"
    by (simp add: array_read_in_bounds length_configuration_arguments)
next
  assume "j < 6"
  then show "\<exists>c. array_read thread_model j = Some c"
    by (simp add: array_read_in_bounds length_thread_model)
next
  assume "k < 8"
  then have k: "k < length configure_default_options"
    by (simp add: length_configure_default_options)
  then have "configure_default_options ! k \<in> set configure_default_options"
    by (rule nth_mem)
  then obtain n v where
    "c_str (name (configure_default_options ! k)) = Some n"
    "c_str (value (configure_default_options ! k)) = Some v"
    using entries_readable by blast
  moreover have "array_read configure_default_options k = Some (configure_default_options ! k)"
    using k by (simp add: array_read_def)
  ultimately show "\<exists>e n v. array_read configure_default_options k = Some e \<and>
      c_str (name e) = Some n \<and> c_str (value e) = Some v"
    by blast
qed

theorem static_reads_succeed_witness:
  "(955::nat) < 956 \<and> (5::nat) < 6 \<and> (7::nat) < 8 \<and>
   array_read configuration_arguments 955 \<noteq> None \<and>
   array_read thread_model 5 \<noteq> None \<and>
   array_read configure_default_options 7 \<noteq> None"
  using static_reads_succeed [of 955 5 7] by auto

text \<open>
  C9: the eight names of \<open>configure_default_options\<close> are pairwise distinct. So the
  table is a map: for every entry, looking its name up gives the value of that entry, and
  no other entry has this name.
\<close>

theorem configure_default_options_distinct:
  "distinct (map (\<lambda>e. c_str (name e)) configure_default_options) \<and>
   (e \<in> set configure_default_options \<longrightarrow>
      (\<exists>n v. c_str (name e) = Some n \<and> c_str (value e) = Some v \<and>
             option_value n configure_default_options = Some v \<and>
             (\<forall>e' \<in> set configure_default_options. c_str (name e') = Some n \<longrightarrow> e' = e)))"
proof
  show "distinct (map (\<lambda>e. c_str (name e)) configure_default_options)"
    by (simp add: configure_default_options_def c_str_string_literal NUL_def)
next
  show "e \<in> set configure_default_options \<longrightarrow>
      (\<exists>n v. c_str (name e) = Some n \<and> c_str (value e) = Some v \<and>
             option_value n configure_default_options = Some v \<and>
             (\<forall>e' \<in> set configure_default_options. c_str (name e') = Some n \<longrightarrow> e' = e))"
    by (auto simp add: configure_default_options_def option_value_def
          c_str_string_literal NUL_def)
qed

theorem configure_default_options_distinct_witness:
  "\<lparr>name = string_literal ''fpu'', value = string_literal ''vfpv3-d16''\<rparr>
     \<in> set configure_default_options \<and>
   option_value ''fpu'' configure_default_options = Some ''vfpv3-d16''"
proof -
  let ?e = "\<lparr>name = string_literal ''fpu'', value = string_literal ''vfpv3-d16''\<rparr>"
  have h: "?e \<in> set configure_default_options"
    by (simp add: configure_default_options_def)
  have n: "c_str (name ?e) = Some ''fpu''" and v: "c_str (value ?e) = Some ''vfpv3-d16''"
    by (simp_all add: c_str_string_literal NUL_def)
  from configure_default_options_distinct [of ?e] h
  obtain n' v' where "c_str (name ?e) = Some n'" "c_str (value ?e) = Some v'"
    "option_value n' configure_default_options = Some v'"
    by blast
  with n v have "option_value ''fpu'' configure_default_options = Some ''vfpv3-d16''"
    by simp
  with h show ?thesis by simp
qed

text \<open>
  C10: the recorded defaults agree with the recorded configure flags. For each name n of
  abi, arch, tune, float, mode and fpu, the value the table pairs with n is the value of
  the flag \<^verbatim>\<open>--with-n=\<close> of \<open>configuration_arguments\<close>. The table pairs cpu with
  arm10e, and \<^verbatim>\<open>--with-cpu=\<close> occurs nowhere in \<open>configuration_arguments\<close>.
\<close>

theorem defaults_match_configure_flags:
  "(n \<in> {''abi'', ''arch'', ''tune'', ''float'', ''mode'', ''fpu''} \<longrightarrow>
      (\<exists>v. option_value n configure_default_options = Some v \<and>
           configure_flag (''--with-'' @ n @ ''='') = Some v)) \<and>
   option_value ''cpu'' configure_default_options = Some ''arm10e'' \<and>
   configure_flag ''--with-cpu='' = None \<and>
   map_option (sublist ''--with-cpu='') (c_str configuration_arguments) = Some False"
proof (intro conjI impI)
  assume "n \<in> {''abi'', ''arch'', ''tune'', ''float'', ''mode'', ''fpu''}"
  then show "\<exists>v. option_value n configure_default_options = Some v \<and>
           configure_flag (''--with-'' @ n @ ''='') = Some v"
    using option_value_defaults configure_flag_with by auto
next
  show "option_value ''cpu'' configure_default_options = Some ''arm10e''"
    by (rule option_value_defaults)
next
  show "configure_flag ''--with-cpu='' = None"
    by (rule configure_flag_with)
next
  show "map_option (sublist ''--with-cpu='') (c_str configuration_arguments) = Some False"
    by (simp add: configuration_arguments_def c_str_string_literal NUL_def
          sublist_Cons_right)
qed

theorem defaults_match_configure_flags_witness:
  "''fpu'' \<in> {''abi'', ''arch'', ''tune'', ''float'', ''mode'', ''fpu''} \<and>
   option_value ''fpu'' configure_default_options = configure_flag ''--with-fpu='' \<and>
   configure_flag ''--with-fpu='' = Some ''vfpv3-d16''"
proof -
  have h: "''fpu'' \<in> {''abi'', ''arch'', ''tune'', ''float'', ''mode'', ''fpu''}" by simp
  from defaults_match_configure_flags [of "''fpu''"] h
  obtain v where "option_value ''fpu'' configure_default_options = Some v"
    "configure_flag (''--with-'' @ ''fpu'' @ ''='') = Some v"
    by blast
  moreover have "option_value ''fpu'' configure_default_options = Some ''vfpv3-d16''"
    by (simp add: option_value_def configure_default_options_def c_str_string_literal NUL_def)
  ultimately show ?thesis using h by simp
qed

end
